theory Spec2Isabelle
  imports Complex_Main
begin

section \<open>The token bucket of rate_limiter.py\<close>

text \<open>
  The class \<open>RateLimiter\<close> keeps four numeric attributes. Numbers are modelled as exact
  reals: Python's \<open>int\<close> and \<open>float\<close> are both embedded in \<open>real\<close>, so rounding,
  infinities and NaN are outside this model. The attribute \<open>lock\<close> is not a field: every
  method body is one atomic transition of the record below.

  The clock \<open>time.monotonic()\<close> is an input: each function that reads it takes the value
  read as the argument \<open>now\<close>.
\<close>

datatype error = ZeroDivisionError

record RateLimiter =
  max_tokens :: real
  tokens_per_second :: real
  tokens :: real
  last_refill :: real

text \<open>
  \<open>__init__\<close> stores its arguments, fills the bucket and reads the clock. Its body has no
  \<open>raise\<close> and no operation that can fail, so the only branch is the successful one.
\<close>

definition RateLimiter_init :: "real \<Rightarrow> real \<Rightarrow> real \<Rightarrow> error + RateLimiter" where
  "RateLimiter_init now max_tokens' tokens_per_second' =
     Inr \<lparr>max_tokens = max_tokens',
          tokens_per_second = tokens_per_second',
          tokens = max_tokens',
          last_refill = now\<rparr>"

text \<open>\<open>_refill_tokens\<close>: Python's \<open>min(a, b)\<close> returns \<open>a\<close> unless \<open>b < a\<close>.\<close>

definition refill_tokens :: "RateLimiter \<Rightarrow> real \<Rightarrow> RateLimiter" where
  "refill_tokens self now =
     (let time_elapsed = now - last_refill self;
          tokens_to_add = time_elapsed * tokens_per_second self
      in self\<lparr>tokens := min (max_tokens self) (tokens self + tokens_to_add),
              last_refill := now\<rparr>)"

text \<open>
  \<open>allow_request\<close> returns the outcome together with the bucket as the call leaves it.
  The division of the denied branch raises \<open>ZeroDivisionError\<close> when the rate is zero;
  the refill has already been stored by then, so the bucket returned with the error is the
  refilled one.
\<close>

definition allow_request ::
  "RateLimiter \<Rightarrow> real \<Rightarrow> real \<Rightarrow> (error + bool \<times> real) \<times> RateLimiter" where
  "allow_request self now cost =
     (let self1 = refill_tokens self now
      in if tokens self1 \<ge> cost then
           (let self2 = self1\<lparr>tokens := tokens self1 - cost\<rparr>
            in (Inr (True, tokens self2), self2))
         else if tokens_per_second self1 = 0 then (Inl ZeroDivisionError, self1)
         else (Inr (False, (cost - tokens self1) / tokens_per_second self1), self1))"



text \<open>The first component of a returned pair, \<open>None\<close> when the call raised.\<close>

fun decision :: "error + bool \<times> real \<Rightarrow> bool option" where
  "decision (Inl e) = None"
| "decision (Inr (allowed, x)) = Some allowed"

section \<open>Basic facts\<close>

lemma refill_tokens_fields:
  "max_tokens (refill_tokens b now) = max_tokens b"
  "tokens_per_second (refill_tokens b now) = tokens_per_second b"
  "last_refill (refill_tokens b now) = now"
  "tokens (refill_tokens b now) =
     min (max_tokens b) (tokens b + (now - last_refill b) * tokens_per_second b)"
  by (simp_all add: refill_tokens_def Let_def)



lemma allow_request_raises:
  "tokens (refill_tokens b now) < cost \<Longrightarrow> tokens_per_second b = 0 \<Longrightarrow>
   allow_request b now cost = (Inl ZeroDivisionError, refill_tokens b now)"
  by (simp add: allow_request_def Let_def refill_tokens_fields(2) not_le)

section \<open>Frame of a call\<close>

text \<open>
  C7. Every call of \<open>allow_request\<close> stores the refill (new level and \<open>last_refill = now\<close>),
  whatever its outcome. The bucket it leaves is the refilled one with \<open>cost\<close> taken from the
  level when the call is allowed, and exactly the refilled one otherwise. \<open>max_tokens\<close> and
  \<open>tokens_per_second\<close> keep their values.
\<close>

theorem allow_request_frame:
  "snd (allow_request b now cost) =
     (if decision (fst (allow_request b now cost)) = Some True
      then (refill_tokens b now)\<lparr>tokens := tokens (refill_tokens b now) - cost\<rparr>
      else refill_tokens b now)
   \<and> refill_tokens b now =
       b\<lparr>tokens := min (max_tokens b) (tokens b + (now - last_refill b) * tokens_per_second b),
         last_refill := now\<rparr>
   \<and> last_refill (snd (allow_request b now cost)) = now
   \<and> max_tokens (snd (allow_request b now cost)) = max_tokens b
   \<and> tokens_per_second (snd (allow_request b now cost)) = tokens_per_second b"
  by (simp add: allow_request_def refill_tokens_def Let_def)

theorem allow_request_frame_witness:
  "snd (allow_request \<lparr>max_tokens = 10, tokens_per_second = 2, tokens = 3, last_refill = 0\<rparr> 1 4)
     = \<lparr>max_tokens = 10, tokens_per_second = 2, tokens = 1, last_refill = 1\<rparr>
   \<and> snd (allow_request \<lparr>max_tokens = 10, tokens_per_second = 2, tokens = 3, last_refill = 0\<rparr> 1 6)
     = \<lparr>max_tokens = 10, tokens_per_second = 2, tokens = 5, last_refill = 1\<rparr>"
  using allow_request_frame
    [of "\<lparr>max_tokens = 10, tokens_per_second = 2, tokens = 3, last_refill = 0\<rparr>" 1 4]
    allow_request_frame
    [of "\<lparr>max_tokens = 10, tokens_per_second = 2, tokens = 3, last_refill = 0\<rparr>" 1 6]
  by (simp add: allow_request_def refill_tokens_def Let_def)

section \<open>Raising and not raising\<close>



section \<open>Refill\<close>



section \<open>A clock that goes back\<close>




section \<open>Arguments that are not validated\<close>

text \<open>
  C4 as stated fails: \<open>__init__\<close> has no check of its arguments. With capacity \<open>-1\<close> and
  rate \<open>0\<close> it produces a bucket.
\<close>

theorem init_nonpositive_counterexample:
  "RateLimiter_init 0 (-1) 0 =
     Inr \<lparr>max_tokens = -1, tokens_per_second = 0, tokens = -1, last_refill = 0\<rparr>"
  by (simp add: RateLimiter_init_def)

text \<open>
  C4, amended. For every pair (capacity, rate), positive or not, construction succeeds:
  it produces a bucket that holds the two arguments, starts full (level = capacity) and
  has \<open>last_refill\<close> set to the clock value read.
\<close>

theorem init_always_succeeds:
  "\<exists>b. RateLimiter_init now c r = Inr b
       \<and> max_tokens b = c \<and> tokens_per_second b = r
       \<and> tokens b = max_tokens b \<and> last_refill b = now"
  by (simp add: RateLimiter_init_def)

theorem init_always_succeeds_witness:
  "\<exists>b. RateLimiter_init 0 10 5 = Inr b
       \<and> max_tokens b = 10 \<and> tokens_per_second b = 5
       \<and> tokens b = max_tokens b \<and> last_refill b = 0"
  using init_always_succeeds [of 0 10 5] by simp




section \<open>Retrying after a denial\<close>




section \<open>The level invariant\<close>







section \<open>Bursts\<close>






end
